theory Spec2Isabelle
  imports Complex_Main "HOL-Library.AList"
begin

section \<open>JavaScript values\<close>

text \<open>
  The adapter of \<^verbatim>\<open>src/lib/index.js\<close> is dynamically typed: a cache key may be
  \<^verbatim>\<open>null\<close>, an object without the expected fields, or a string; a cached item is any
  value. The values that occur are modelled as a tree. \<open>JObj\<close> lists the own properties
  of a plain object in enumeration order, with distinct names; no value is a
  function. Numbers are the integers (what the adapter does with a number is test it
  against zero and divide it by 1000; how a number prints is left to the engine);
  strings are byte strings, a character outside ASCII being its UTF-8 bytes.
\<close>

datatype jsval =
    JUndefined
  | JNull
  | JBool bool
  | JNum int
  | JStr string
  | JArr "jsval list"
  | JObj "(string \<times> jsval) list"

text \<open>What the source can throw or reject with.\<close>

datatype error =
    NotConnectedError
  | Error string
  | TypeError

text \<open>\<^verbatim>\<open>!v\<close> is \<open>\<not> truthy v\<close>.\<close>

fun truthy :: "jsval \<Rightarrow> bool" where
  "truthy JUndefined = False"
| "truthy JNull = False"
| "truthy (JBool b) = b"
| "truthy (JNum n) = (n \<noteq> 0)"
| "truthy (JStr s) = (s \<noteq> [])"
| "truthy (JArr xs) = True"
| "truthy (JObj kvs) = True"

text \<open>
  \<^verbatim>\<open>v.name\<close> for a receiver that is neither \<^verbatim>\<open>null\<close> nor \<^verbatim>\<open>undefined\<close> (on those
  the access throws a TypeError, which the callers below write out) and a name that
  no prototype defines (\<^verbatim>\<open>segment\<close>, \<^verbatim>\<open>id\<close>, \<^verbatim>\<open>item\<close>, \<^verbatim>\<open>stored\<close>): the own
  property of an object, \<^verbatim>\<open>undefined\<close> otherwise.
\<close>

fun property :: "jsval \<Rightarrow> string \<Rightarrow> jsval" where
  "property (JObj kvs) name = (case map_of kvs name of None \<Rightarrow> JUndefined | Some v \<Rightarrow> v)"
| "property v name = JUndefined"

definition nullish :: "jsval \<Rightarrow> bool" where
  "nullish v = (v = JNull \<or> v = JUndefined)"

section \<open>The engine's built-ins\<close>

text \<open>
  \<^verbatim>\<open>JSON.parse\<close>, \<^verbatim>\<open>JSON.stringify\<close>, \<^verbatim>\<open>Date.now\<close> and the printing of a number
  (\<^verbatim>\<open>Number.prototype.toString\<close>) belong to the JavaScript engine. The adapter's
  operations take them as a parameter, so every theorem below holds for any parser,
  any printer and any clock. \<open>JSON_parse\<close> is \<open>None\<close> where the built-in throws.
  \<open>JSON_stringify\<close> is applied to an object literal only, for which the built-in
  returns text or throws (on a reference cycle).
\<close>

record engine =
  JSON_parse :: "string \<Rightarrow> jsval option"
  JSON_stringify :: "jsval \<Rightarrow> error + string"
  Date_now :: int
  Number_toString :: "int \<Rightarrow> string"

section \<open>Conversion to string\<close>

fun join :: "string \<Rightarrow> string list \<Rightarrow> string" where
  "join sep [] = []"
| "join sep [x] = x"
| "join sep (x # y # ys) = x @ sep @ join sep (y # ys)"

text \<open>
  The string conversion that \<^verbatim>\<open>encodeURIComponent\<close> applies to its argument. An
  array prints its elements separated by commas, \<^verbatim>\<open>null\<close> and \<^verbatim>\<open>undefined\<close>
  elements as nothing. A plain object is converted by the \<^verbatim>\<open>toString\<close> it inherits,
  unless it has a property \<^verbatim>\<open>toString\<close> of its own: no value of \<open>jsval\<close> is
  callable, so the conversion then finds neither a \<^verbatim>\<open>toString\<close> nor a \<^verbatim>\<open>valueOf\<close> that
  gives a primitive, and throws a TypeError.
\<close>

fun ToString :: "engine \<Rightarrow> jsval \<Rightarrow> error + string"
  and ToString_elements :: "engine \<Rightarrow> jsval list \<Rightarrow> error + string list" where
  "ToString E JUndefined = Inr ''undefined''"
| "ToString E JNull = Inr ''null''"
| "ToString E (JBool b) = Inr (if b then ''true'' else ''false'')"
| "ToString E (JNum n) = Inr (Number_toString E n)"
| "ToString E (JStr s) = Inr s"
| "ToString E (JArr xs) =
     (case ToString_elements E xs of
        Inl e \<Rightarrow> Inl e
      | Inr ss \<Rightarrow> Inr (join '','' ss))"
| "ToString E (JObj kvs) =
     (if map_of kvs ''toString'' = None then Inr ''[object Object]'' else Inl TypeError)"
| "ToString_elements E [] = Inr []"
| "ToString_elements E (x # xs) =
     (case (if x = JNull \<or> x = JUndefined then Inr [] else ToString E x) of
        Inl e \<Rightarrow> Inl e
      | Inr s \<Rightarrow>
         (case ToString_elements E xs of
            Inl e \<Rightarrow> Inl e
          | Inr ss \<Rightarrow> Inr (s # ss)))"

subsection \<open>encodeURIComponent\<close>

text \<open>
  The characters that \<^verbatim>\<open>encodeURIComponent\<close> leaves as they are: letters, digits and
  \<^verbatim>\<open>- _ . ! ~ * ' ( )\<close>. Every other byte of the UTF-8 form of the string becomes
  \<^verbatim>\<open>%XX\<close> with upper-case hexadecimal digits.
\<close>

definition uriUnreserved :: string where
  "uriUnreserved =
     ''ABCDEFGHIJKLMNOPQRSTUVWXYZabcdefghijklmnopqrstuvwxyz0123456789-_.!~*()'' @ [CHR 0x27]"

definition hexdigit :: "nat \<Rightarrow> char" where
  "hexdigit n = ''0123456789ABCDEF'' ! n"

definition encode_char :: "char \<Rightarrow> string" where
  "encode_char c =
     (if c \<in> set uriUnreserved then [c]
      else [CHR ''%'', hexdigit (of_char c div 16), hexdigit (of_char c mod 16)])"

definition encodeURIComponent :: "string \<Rightarrow> string" where
  "encodeURIComponent s = concat (map encode_char s)"

section \<open>The remote store handle\<close>

text \<open>
  The client handed to the constructor is a library object outside this repository.
  Its model follows the collaborator contract the specification gives for it: a
  \<^verbatim>\<open>status\<close> string, and \<^verbatim>\<open>connect\<close>, \<^verbatim>\<open>get\<close>, \<^verbatim>\<open>set\<close> with an expiry in seconds and
  \<^verbatim>\<open>del\<close>. The handle records every command it is sent in \<open>calls\<close>, so that "no remote
  call" is a statement about this list. \<open>fault\<close> is a transport failure: while it is
  set, every command is rejected with it. The store keeps the text written under a
  key; the expiry of a write is kept with the logged command, and entries do not age
  (there is no clock in the model of the store).
\<close>

datatype command =
    CONNECT
  | GET string
  | SET string string string int
  | DEL string

record client =
  status :: string
  fault :: "error option"
  store :: "string \<rightharpoonup> string"
  calls :: "command list"

definition client_connect :: "client \<Rightarrow> (error + unit) \<times> client" where
  "client_connect c =
     (let c' = c\<lparr>calls := calls c @ [CONNECT]\<rparr>
      in case fault c of
           Some e \<Rightarrow> (Inl e, c'\<lparr>status := ''end''\<rparr>)
         | None \<Rightarrow> (Inr (), c'\<lparr>status := ''ready''\<rparr>))"

definition client_get :: "client \<Rightarrow> string \<Rightarrow> (error + string option) \<times> client" where
  "client_get c k =
     (let c' = c\<lparr>calls := calls c @ [GET k]\<rparr>
      in case fault c of
           Some e \<Rightarrow> (Inl e, c')
         | None \<Rightarrow> (Inr (store c k), c'))"

definition client_set ::
  "client \<Rightarrow> string \<Rightarrow> string \<Rightarrow> string \<Rightarrow> int \<Rightarrow> (error + unit) \<times> client" where
  "client_set c k v mode secs =
     (let c' = c\<lparr>calls := calls c @ [SET k v mode secs]\<rparr>
      in case fault c of
           Some e \<Rightarrow> (Inl e, c')
         | None \<Rightarrow> (Inr (), c'\<lparr>store := (store c)(k \<mapsto> v)\<rparr>))"

definition client_del :: "client \<Rightarrow> string \<Rightarrow> (error + int) \<times> client" where
  "client_del c k =
     (let c' = c\<lparr>calls := calls c @ [DEL k]\<rparr>
      in case fault c of
           Some e \<Rightarrow> (Inl e, c')
         | None \<Rightarrow> (Inr (if store c k = None then 0 else 1), c'\<lparr>store := (store c)(k := None)\<rparr>))"

section \<open>CatboxRedis\<close>

record adapter =
  client :: client
  partition_str :: "string option"

text \<open>
  The class of \<^verbatim>\<open>src/lib/index.js\<close>. Its \<^verbatim>\<open>get\<close>, \<^verbatim>\<open>set\<close> and \<^verbatim>\<open>drop\<close> are \<open>get_op\<close>,
  \<open>set_op\<close> and \<open>drop_op\<close> here, and its \<^verbatim>\<open>partition\<close> is \<open>partition_str\<close>: the list
  library has the short names. Every operation returns what its promise settles with
  (\<open>Inl\<close> a rejection) and the adapter after the call, whose handle holds the commands
  sent. Each \<^verbatim>\<open>await\<close> is one step: the calls of this model do not interleave.

  The time to live is an integer number of milliseconds, as the data model has it,
  so that \<^verbatim>\<open>Math.floor(ttl / 1000)\<close> is \<open>ttl div 1000\<close> (the quotient rounded down, also
  for a negative \<^verbatim>\<open>ttl\<close>).
\<close>

definition start :: "adapter \<Rightarrow> (error + unit) \<times> adapter" where
  "start a =
     (if status (client a) \<noteq> ''wait'' then (Inr (), a)
      else case client_connect (client a) of (r, c') \<Rightarrow> (r, a\<lparr>client := c'\<rparr>))"

definition stop :: "adapter \<Rightarrow> adapter" where
  "stop a = a"

definition isReady :: "adapter \<Rightarrow> bool" where
  "isReady a = (status (client a) = ''ready'')"

definition validateSegmentName :: "string \<Rightarrow> error option" where
  "validateSegmentName name =
     (if name = [] then Some (Error ''Empty string'')
      else if CHR 0x00 \<in> set name then Some (Error ''Includes null character'')
      else None)"

text \<open>
  \<^verbatim>\<open>generateKey\<close>: the partition is pushed when it is truthy (configured and not the
  empty string); \<^verbatim>\<open>key.segment\<close> throws a TypeError on a \<^verbatim>\<open>null\<close> or \<^verbatim>\<open>undefined\<close> key;
  \<^verbatim>\<open>encodeURIComponent\<close> throws the TypeError of a field that has no string conversion.
\<close>

definition generateKey :: "engine \<Rightarrow> adapter \<Rightarrow> jsval \<Rightarrow> error + string" where
  "generateKey E a key =
     (let parts = (case partition_str a of
                     None \<Rightarrow> []
                   | Some p \<Rightarrow> if p \<noteq> [] then [encodeURIComponent p] else [])
      in if nullish key then Inl TypeError
         else
           (case ToString E (property key ''segment'') of
              Inl e \<Rightarrow> Inl e
            | Inr segment \<Rightarrow>
               (case ToString E (property key ''id'') of
                  Inl e \<Rightarrow> Inl e
                | Inr ident \<Rightarrow>
                   Inr (join '':''
                     (parts @ [encodeURIComponent segment, encodeURIComponent ident])))))"

definition get_op :: "engine \<Rightarrow> adapter \<Rightarrow> jsval \<Rightarrow> (error + jsval) \<times> adapter" where
  "get_op E a key =
     (if \<not> isReady a then (Inl NotConnectedError, a)
      else case generateKey E a key of
        Inl e \<Rightarrow> (Inl e, a)
      | Inr k \<Rightarrow>
         (case client_get (client a) k of
            (Inl e, c') \<Rightarrow> (Inl e, a\<lparr>client := c'\<rparr>)
          | (Inr result, c') \<Rightarrow>
             (case result of
                None \<Rightarrow> (Inr JNull, a\<lparr>client := c'\<rparr>)
              | Some raw \<Rightarrow>
                 if raw = [] then (Inr JNull, a\<lparr>client := c'\<rparr>)
                 else
                   (let envelope = (case JSON_parse E raw of None \<Rightarrow> JNull | Some v \<Rightarrow> v)
                    in if \<not> truthy envelope
                       then (Inl (Error ''Bad envelope content''), a\<lparr>client := c'\<rparr>)
                       else if (\<not> truthy (property envelope ''item'') \<and> property envelope ''item'' \<noteq> JNum 0)
                               \<or> \<not> truthy (property envelope ''stored'')
                       then (Inl (Error ''Incorrect envelope structure''), a\<lparr>client := c'\<rparr>)
                       else (Inr envelope, a\<lparr>client := c'\<rparr>)))))"

definition set_op ::
  "engine \<Rightarrow> adapter \<Rightarrow> jsval \<Rightarrow> jsval \<Rightarrow> int \<Rightarrow> (error + unit) \<times> adapter" where
  "set_op E a key val ttl =
     (if \<not> isReady a then (Inl NotConnectedError, a)
      else case generateKey E a key of
        Inl e \<Rightarrow> (Inl e, a)
      | Inr cacheKey \<Rightarrow>
         (case JSON_stringify E
                 (JObj [(''item'', val), (''stored'', JNum (Date_now E)), (''ttl'', JNum ttl)]) of
            Inl e \<Rightarrow> (Inl e, a)
          | Inr text \<Rightarrow>
             (case client_set (client a) cacheKey text ''ex'' (max 1 (ttl div 1000)) of
                (r, c') \<Rightarrow> (r, a\<lparr>client := c'\<rparr>))))"

definition drop_op :: "engine \<Rightarrow> adapter \<Rightarrow> jsval \<Rightarrow> (error + int) \<times> adapter" where
  "drop_op E a key =
     (if \<not> isReady a then (Inl NotConnectedError, a)
      else case generateKey E a key of
        Inl e \<Rightarrow> (Inl e, a)
      | Inr k \<Rightarrow>
         (case client_del (client a) k of (r, c') \<Rightarrow> (r, a\<lparr>client := c'\<rparr>)))"

section \<open>A concrete engine\<close>

text \<open>
  To run the adapter on concrete inputs the built-ins need an implementation. This
  one covers the JSON texts whose numbers are integer literals and whose
  \<^verbatim>\<open>\u\<close> escapes name ASCII characters: the printer writes what \<^verbatim>\<open>JSON.stringify\<close>
  writes for a value of \<open>jsval\<close>, the parser reads what \<^verbatim>\<open>JSON.parse\<close> reads, and gives
  \<open>None\<close> on a text with a syntax error and on a text outside this fragment. A number
  prints as a decimal integer, which is what the engine writes for an integer that it
  represents exactly and that is below \<open>10\<^sup>2\<^sup>1\<close> in magnitude. The implementation is
  used at concrete inputs only; the general theorems are about any engine.
\<close>

definition digit :: "nat \<Rightarrow> char" where
  "digit n = ''0123456789'' ! n"

fun decimal :: "nat \<Rightarrow> string" where
  "decimal n = (if n < 10 then [digit n] else decimal (n div 10) @ [digit (n mod 10)])"

declare decimal.simps [simp del]

definition show_int :: "int \<Rightarrow> string" where
  "show_int i = (if i < 0 then CHR ''-'' # decimal (nat (- i)) else decimal (nat i))"

definition dquote :: char where "dquote = CHR 0x22"
definition backslash :: char where "backslash = CHR 0x5C"

definition quoted :: "string \<Rightarrow> string" where
  "quoted s = dquote # s @ [dquote]"

definition hexlower :: "nat \<Rightarrow> char" where
  "hexlower n = ''0123456789abcdef'' ! n"

definition json_escape :: "char \<Rightarrow> string" where
  "json_escape c =
     (if c = dquote then [backslash, dquote]
      else if c = backslash then [backslash, backslash]
      else if c = CHR 0x08 then [backslash, CHR ''b'']
      else if c = CHR 0x0C then [backslash, CHR ''f'']
      else if c = CHR 0x0A then [backslash, CHR ''n'']
      else if c = CHR 0x0D then [backslash, CHR ''r'']
      else if c = CHR 0x09 then [backslash, CHR ''t'']
      else if (of_char c :: nat) < 32
        then backslash # ''u00'' @ [hexlower (of_char c div 16), hexlower (of_char c mod 16)]
      else [c])"

definition json_quote :: "string \<Rightarrow> string" where
  "json_quote s = quoted (concat (map json_escape s))"

text \<open>
  A property whose value is \<^verbatim>\<open>undefined\<close> is left out of an object, and an
  \<^verbatim>\<open>undefined\<close> element of an array is written \<^verbatim>\<open>null\<close>.
\<close>

fun json_text :: "jsval \<Rightarrow> string option"
  and json_elements :: "jsval list \<Rightarrow> string list"
  and json_members :: "(string \<times> jsval) list \<Rightarrow> string list" where
  "json_text JUndefined = None"
| "json_text JNull = Some ''null''"
| "json_text (JBool b) = Some (if b then ''true'' else ''false'')"
| "json_text (JNum n) = Some (show_int n)"
| "json_text (JStr s) = Some (json_quote s)"
| "json_text (JArr xs) = Some (''['' @ join '','' (json_elements xs) @ '']'')"
| "json_text (JObj kvs) = Some (''{'' @ join '','' (json_members kvs) @ ''}'')"
| "json_elements [] = []"
| "json_elements (x # xs) =
     (case json_text x of None \<Rightarrow> ''null'' | Some t \<Rightarrow> t) # json_elements xs"
| "json_members [] = []"
| "json_members ((k, v) # kvs) =
     (case json_text v of
        None \<Rightarrow> json_members kvs
      | Some t \<Rightarrow> (json_quote k @ '':'' @ t) # json_members kvs)"

text \<open>
  The parser is a recursive descent on fuel, which \<open>json_parse\<close> starts at one more
  than the length of the text. A repeated property name keeps its first position and
  takes its last value.
\<close>

definition skip_ws :: "string \<Rightarrow> string" where
  "skip_ws s = dropWhile (\<lambda>c. c \<in> set [CHR 0x20, CHR 0x09, CHR 0x0A, CHR 0x0D]) s"

definition is_digit :: "char \<Rightarrow> bool" where
  "is_digit c = (c \<in> set ''0123456789'')"

definition digit_val :: "char \<Rightarrow> nat" where
  "digit_val c = of_char c - 48"

definition hex_val :: "char \<Rightarrow> nat option" where
  "hex_val c =
     (if is_digit c then Some (of_char c - 48)
      else if c \<in> set ''abcdef'' then Some (of_char c - 87)
      else if c \<in> set ''ABCDEF'' then Some (of_char c - 55)
      else None)"

definition unescape :: "char \<Rightarrow> char option" where
  "unescape e =
     (if e = dquote then Some dquote
      else if e = backslash then Some backslash
      else if e = CHR ''/'' then Some (CHR ''/'')
      else if e = CHR ''b'' then Some (CHR 0x08)
      else if e = CHR ''f'' then Some (CHR 0x0C)
      else if e = CHR ''n'' then Some (CHR 0x0A)
      else if e = CHR ''r'' then Some (CHR 0x0D)
      else if e = CHR ''t'' then Some (CHR 0x09)
      else None)"

definition unicode_escape :: "string \<Rightarrow> char option" where
  "unicode_escape hs =
     (case map hex_val hs of
        [Some a, Some b, Some c, Some d] \<Rightarrow>
          if a = 0 \<and> b = 0 \<and> c < 8 then Some (char_of (16 * c + d)) else None
      | _ \<Rightarrow> None)"

fun string_body :: "string \<Rightarrow> (string \<times> string) option" where
  "string_body [] = None"
| "string_body (c # cs) =
     (if c = dquote then Some ([], cs)
      else if c = backslash then
        (case cs of
           [] \<Rightarrow> None
         | e # es \<Rightarrow>
            if e = CHR ''u'' then
              (case unicode_escape (take 4 es) of
                 None \<Rightarrow> None
               | Some d \<Rightarrow> map_option (apfst ((#) d)) (string_body (drop 4 es)))
            else
              (case unescape e of
                 None \<Rightarrow> None
               | Some d \<Rightarrow> map_option (apfst ((#) d)) (string_body es)))
      else if (of_char c :: nat) < 32 then None
      else map_option (apfst ((#) c)) (string_body cs))"

definition number_lit :: "string \<Rightarrow> (int \<times> string) option" where
  "number_lit s =
     (let neg = (s \<noteq> [] \<and> hd s = CHR ''-'');
          t = (if neg then tl s else s);
          ds = takeWhile is_digit t;
          r = dropWhile is_digit t
      in if ds = [] \<or> (hd ds = CHR ''0'' \<and> tl ds \<noteq> []) then None
         else if r \<noteq> [] \<and> hd r \<in> set ''.eE'' then None
         else let n = int (foldl (\<lambda>acc d. 10 * acc + digit_val d) 0 ds)
              in Some (if neg then - n else n, r))"

fun strip_prefix :: "string \<Rightarrow> string \<Rightarrow> string option" where
  "strip_prefix [] s = Some s"
| "strip_prefix (p # ps) [] = None"
| "strip_prefix (p # ps) (c # cs) = (if p = c then strip_prefix ps cs else None)"

fun parse_value :: "nat \<Rightarrow> string \<Rightarrow> (jsval \<times> string) option"
  and parse_elements :: "nat \<Rightarrow> string \<Rightarrow> (jsval list \<times> string) option"
  and parse_members :: "nat \<Rightarrow> string \<Rightarrow> ((string \<times> jsval) list \<times> string) option" where
  "parse_value 0 s = None"
| "parse_value (Suc n) s =
     (case skip_ws s of
        [] \<Rightarrow> None
      | c # cs \<Rightarrow>
         if c = CHR ''{'' then
           (case skip_ws cs of
              [] \<Rightarrow> None
            | d # ds \<Rightarrow>
               if d = CHR ''}'' then Some (JObj [], ds)
               else map_option (apfst (\<lambda>ms. JObj (foldl (\<lambda>acc (k, v). AList.update k v acc) [] ms)))
                      (parse_members n (d # ds)))
         else if c = CHR ''['' then
           (case skip_ws cs of
              [] \<Rightarrow> None
            | d # ds \<Rightarrow>
               if d = CHR '']'' then Some (JArr [], ds)
               else map_option (apfst JArr) (parse_elements n (d # ds)))
         else if c = dquote then map_option (apfst JStr) (string_body cs)
         else if c = CHR ''t'' then map_option (Pair (JBool True)) (strip_prefix ''rue'' cs)
         else if c = CHR ''f'' then map_option (Pair (JBool False)) (strip_prefix ''alse'' cs)
         else if c = CHR ''n'' then map_option (Pair JNull) (strip_prefix ''ull'' cs)
         else map_option (apfst JNum) (number_lit (c # cs)))"
| "parse_elements 0 s = None"
| "parse_elements (Suc n) s =
     (case parse_value n s of
        None \<Rightarrow> None
      | Some (v, r) \<Rightarrow>
         (case skip_ws r of
            [] \<Rightarrow> None
          | c # cs \<Rightarrow>
             if c = CHR '','' then map_option (apfst ((#) v)) (parse_elements n cs)
             else if c = CHR '']'' then Some ([v], cs)
             else None))"
| "parse_members 0 s = None"
| "parse_members (Suc n) s =
     (case skip_ws s of
        [] \<Rightarrow> None
      | q # qs \<Rightarrow>
         if q \<noteq> dquote then None
         else
           (case string_body qs of
              None \<Rightarrow> None
            | Some (k, r) \<Rightarrow>
               (case skip_ws r of
                  [] \<Rightarrow> None
                | c # cs \<Rightarrow>
                   if c \<noteq> CHR '':'' then None
                   else
                     (case parse_value n cs of
                        None \<Rightarrow> None
                      | Some (v, r') \<Rightarrow>
                         (case skip_ws r' of
                            [] \<Rightarrow> None
                          | d # ds \<Rightarrow>
                             if d = CHR '','' then map_option (apfst ((#) (k, v))) (parse_members n ds)
                             else if d = CHR ''}'' then Some ([(k, v)], ds)
                             else None)))))"

definition json_parse :: "string \<Rightarrow> jsval option" where
  "json_parse s =
     (case parse_value (Suc (length s)) s of
        None \<Rightarrow> None
      | Some (v, r) \<Rightarrow> if skip_ws r = [] then Some v else None)"

text \<open>
  \<^verbatim>\<open>JSON.stringify\<close> of a value without a JSON text (\<^verbatim>\<open>undefined\<close>) returns
  \<^verbatim>\<open>undefined\<close>; \<open>set_op\<close> always passes an object, which has a text.
\<close>

definition node :: "int \<Rightarrow> engine" where
  "node now =
     \<lparr>JSON_parse = json_parse,
      JSON_stringify = (\<lambda>v. case json_text v of None \<Rightarrow> Inl TypeError | Some t \<Rightarrow> Inr t),
      Date_now = now,
      Number_toString = show_int\<rparr>"

subsection \<open>Inputs of the test suite\<close>

text \<open>
  The handles and keys that \<^verbatim>\<open>src/test/index.js\<close> uses: a connected client, a
  client created with \<^verbatim>\<open>lazyConnect\<close> (status \<^verbatim>\<open>wait\<close>), the key
  \<^verbatim>\<open>{ id: 'x', segment: 'test' }\<close>, and a store that holds a given text.
\<close>

definition ready_client :: client where
  "ready_client = \<lparr>status = ''ready'', fault = None, store = Map.empty, calls = []\<rparr>"

definition ready_adapter :: adapter where
  "ready_adapter = \<lparr>client = ready_client, partition_str = None\<rparr>"

definition lazy_adapter :: adapter where
  "lazy_adapter = \<lparr>client = ready_client\<lparr>status := ''wait''\<rparr>, partition_str = None\<rparr>"

definition test_key :: jsval where
  "test_key = JObj [(''id'', JStr ''x''), (''segment'', JStr ''test'')]"



definition holding :: "string \<Rightarrow> string \<Rightarrow> adapter" where
  "holding k raw = ready_adapter\<lparr>client := ready_client\<lparr>store := [k \<mapsto> raw]\<rparr>\<rparr>"

text \<open>
  Texts found under a key: two of the malformed envelopes of the test suite, and an
  envelope written at millisecond 1 with a time to live of one millisecond.
\<close>

definition raw_no_stored :: string where
  "raw_no_stored = ''{ '' @ quoted ''item'' @ '': '' @ quoted ''false'' @ '' }''"

definition raw_no_item :: string where
  "raw_no_item = ''{ '' @ quoted ''stored'' @ '': '' @ quoted ''123'' @ '' }''"

definition raw_false_item :: string where
  "raw_false_item = ''{'' @ quoted ''item'' @ '':false,'' @ quoted ''stored'' @ '':1}''"

definition raw_expired :: string where
  "raw_expired =
     ''{'' @ quoted ''item'' @ '':'' @ quoted ''x'' @ '','' @ quoted ''stored'' @ '':1,''
       @ quoted ''ttl'' @ '':1}''"

definition partitioned :: "string \<Rightarrow> adapter" where
  "partitioned p = ready_adapter\<lparr>partition_str := Some p\<rparr>"

section \<open>Evaluation\<close>

lemmas engine_eval =
  node_def json_parse_def json_quote_def quoted_def json_escape_def dquote_def backslash_def
  skip_ws_def number_lit_def is_digit_def digit_val_def unescape_def show_int_def
  decimal.simps digit_def

lemmas uri_eval =
  generateKey_def nullish_def encodeURIComponent_def encode_char_def uriUnreserved_def
  hexdigit_def

lemma ready_adapter_ready: "isReady ready_adapter"
  by (simp add: isReady_def ready_adapter_def ready_client_def)

lemma ready_adapter_fault: "fault (client ready_adapter) = None"
  by (simp add: ready_adapter_def ready_client_def)


lemma ready_adapter_calls: "calls (client ready_adapter) = []"
  by (simp add: ready_adapter_def ready_client_def)

lemma lazy_adapter_not_ready: "\<not> isReady lazy_adapter"
  by (simp add: isReady_def lazy_adapter_def ready_client_def)

lemma test_key_storage: "generateKey E ready_adapter test_key = Inr ''test:x''"
  by (simp add: uri_eval ready_adapter_def test_key_def)


text \<open>The two keys of the test suite's \<^verbatim>\<open>generateKey()\<close> cases.\<close>

lemma generateKey_examples:
  "generateKey E (partitioned ''foo'') (JObj [(''id'', JStr ''bar''), (''segment'', JStr ''baz'')])
     = Inr ''foo:baz:bar''"
  "generateKey E ready_adapter (JObj [(''id'', JStr ''bar''), (''segment'', JStr ''baz'')])
     = Inr ''baz:bar''"
  by (simp_all add: uri_eval partitioned_def ready_adapter_def)

lemma holding_ready: "isReady (holding k raw)"
  by (simp add: holding_def isReady_def ready_adapter_def ready_client_def)

lemma holding_test_key: "generateKey E (holding k raw) test_key = Inr ''test:x''"
  by (simp add: uri_eval holding_def ready_adapter_def test_key_def)

lemma holding_fault: "fault (client (holding k raw)) = None"
  by (simp add: holding_def ready_adapter_def ready_client_def)

lemma holding_store: "store (client (holding k raw)) k = Some raw"
  by (simp add: holding_def)

lemma holding_calls: "calls (client (holding k raw)) = []"
  by (simp add: holding_def ready_adapter_def ready_client_def)

lemma parse_test: "JSON_parse (node 1500000000000) ''test'' = None"
  by (simp add: engine_eval)

lemma parse_null: "JSON_parse (node 1500000000000) ''null'' = Some JNull"
  by (simp add: engine_eval)

lemma parse_no_stored:
  "JSON_parse (node 1500000000000) raw_no_stored = Some (JObj [(''item'', JStr ''false'')])"
  by (simp add: raw_no_stored_def engine_eval)

lemma parse_no_item:
  "JSON_parse (node 1500000000000) raw_no_item = Some (JObj [(''stored'', JStr ''123'')])"
  by (simp add: raw_no_item_def engine_eval)

lemma parse_expired:
  "JSON_parse (node 1500000000000) raw_expired
   = Some (JObj [(''item'', JStr ''x''), (''stored'', JNum 1), (''ttl'', JNum 1)])"
  by (simp add: raw_expired_def engine_eval)

lemma raws_nonempty: "raw_no_stored \<noteq> []" "raw_no_item \<noteq> []" "raw_expired \<noteq> []"
  by (simp_all add: raw_no_stored_def raw_no_item_def raw_expired_def)


lemma stringify_x1:
  "JSON_stringify (node 1500000000000)
     (JObj [(''item'', JStr ''x''), (''stored'', JNum (Date_now (node 1500000000000))),
            (''ttl'', JNum 1)])
   = Inr (''{'' @ quoted ''item'' @ '':'' @ quoted ''x'' @ '','' @ quoted ''stored''
            @ '':1500000000000,'' @ quoted ''ttl'' @ '':1}'')"
  by (simp add: engine_eval)


lemma stringify_false:
  "JSON_stringify (node 1500000000000)
     (JObj [(''item'', JBool False), (''stored'', JNum (Date_now (node 1500000000000))),
            (''ttl'', JNum 1000)])
   = Inr (''{'' @ quoted ''item'' @ '':false,'' @ quoted ''stored'' @ '':1500000000000,''
            @ quoted ''ttl'' @ '':1000}'')"
  by (simp add: engine_eval)

lemma parse_false:
  "JSON_parse (node 1500000000200)
     (''{'' @ quoted ''item'' @ '':false,'' @ quoted ''stored'' @ '':1500000000000,''
        @ quoted ''ttl'' @ '':1000}'')
   = Some (JObj [(''item'', JBool False), (''stored'', JNum 1500000000000), (''ttl'', JNum 1000)])"
  by (simp add: engine_eval)

lemma stringify_empty_string:
  "JSON_stringify (node 1500000000000)
     (JObj [(''item'', JStr []), (''stored'', JNum (Date_now (node 1500000000000))),
            (''ttl'', JNum 1000)])
   = Inr (''{'' @ quoted ''item'' @ '':'' @ quoted [] @ '','' @ quoted ''stored''
            @ '':1500000000000,'' @ quoted ''ttl'' @ '':1000}'')"
  by (simp add: engine_eval)

lemma parse_empty_string:
  "JSON_parse (node 1500000000200)
     (''{'' @ quoted ''item'' @ '':'' @ quoted [] @ '','' @ quoted ''stored''
        @ '':1500000000000,'' @ quoted ''ttl'' @ '':1000}'')
   = Some (JObj [(''item'', JStr []), (''stored'', JNum 1500000000000), (''ttl'', JNum 1000)])"
  by (simp add: engine_eval)

lemma stringify_zero:
  "JSON_stringify (node 1500000000000)
     (JObj [(''item'', JNum 0), (''stored'', JNum (Date_now (node 1500000000000))),
            (''ttl'', JNum 200)])
   = Inr (''{'' @ quoted ''item'' @ '':0,'' @ quoted ''stored'' @ '':1500000000000,''
            @ quoted ''ttl'' @ '':200}'')"
  by (simp add: engine_eval)

lemma parse_zero:
  "JSON_parse (node 1500000000200)
     (''{'' @ quoted ''item'' @ '':0,'' @ quoted ''stored'' @ '':1500000000000,''
        @ quoted ''ttl'' @ '':200}'')
   = Some (JObj [(''item'', JNum 0), (''stored'', JNum 1500000000000), (''ttl'', JNum 200)])"
  by (simp add: engine_eval)

section \<open>Key generation\<close>

lemma hexdigit_inj: "i < 16 \<Longrightarrow> j < 16 \<Longrightarrow> hexdigit i = hexdigit j \<Longrightarrow> i = j"
proof -
  assume ij: "i < 16" "j < 16" and eq: "hexdigit i = hexdigit j"
  have d: "distinct ''0123456789ABCDEF''" by simp
  have l: "length ''0123456789ABCDEF'' = 16" by simp
  from eq have "''0123456789ABCDEF'' ! i = ''0123456789ABCDEF'' ! j"
    by (simp only: hexdigit_def)
  with d ij l show "i = j"
    by (simp only: nth_eq_iff_index_eq)
qed

lemma hexdigit_mem: "n < 16 \<Longrightarrow> hexdigit n \<in> set ''0123456789ABCDEF''"
  unfolding hexdigit_def by (rule nth_mem) simp

lemma percent_reserved: "CHR ''%'' \<notin> set uriUnreserved"
  by (simp add: uriUnreserved_def)

lemma colon_reserved: "CHR '':'' \<notin> set uriUnreserved"
  by (simp add: uriUnreserved_def)

lemma high_nibble: "of_char c div 16 < (16::nat)"
proof -
  have "(of_char c :: nat) < 256" by simp
  then show ?thesis by arith
qed

text \<open>
  The encodings of single characters form a prefix code: an escape starts with
  \<^verbatim>\<open>%\<close>, which is never left as it is, and its two digits determine the byte.
\<close>

lemma encode_char_prefix:
  assumes "encode_char c @ xs = encode_char d @ ys"
  shows "c = d \<and> xs = ys"
proof (cases "c \<in> set uriUnreserved")
  case cu: True
  show ?thesis
  proof (cases "d \<in> set uriUnreserved")
    case True
    with cu assms show ?thesis by (simp add: encode_char_def)
  next
    case False
    with cu assms have "c = CHR ''%''" by (simp add: encode_char_def)
    with cu percent_reserved show ?thesis by simp
  qed
next
  case cr: False
  show ?thesis
  proof (cases "d \<in> set uriUnreserved")
    case True
    with cr assms have "d = CHR ''%''" by (simp add: encode_char_def)
    with True percent_reserved show ?thesis by simp
  next
    case False
    with cr assms have hi: "hexdigit (of_char c div 16) = hexdigit (of_char d div 16)"
      and lo: "hexdigit (of_char c mod 16) = hexdigit (of_char d mod 16)"
      and rest: "xs = ys"
      by (simp_all add: encode_char_def)
    from hi have "(of_char c :: nat) div 16 = of_char d div 16"
      by (rule hexdigit_inj [OF high_nibble high_nibble])
    moreover from lo have "(of_char c :: nat) mod 16 = of_char d mod 16"
      by (intro hexdigit_inj) simp_all
    ultimately have "(of_char c :: nat) = of_char d"
      by (metis div_mult_mod_eq)
    then have "c = d" by simp
    with rest show ?thesis by simp
  qed
qed

lemma encode_char_nonempty: "encode_char c \<noteq> []"
  by (simp add: encode_char_def)

lemma encodeURIComponent_inj:
  "encodeURIComponent s = encodeURIComponent t \<Longrightarrow> s = t"
proof (induction s arbitrary: t)
  case Nil
  then show ?case
    by (cases t) (simp_all add: encodeURIComponent_def encode_char_nonempty)
next
  case (Cons c s)
  show ?case
  proof (cases t)
    case Nil
    with Cons.prems show ?thesis
      by (simp add: encodeURIComponent_def encode_char_nonempty)
  next
    case (Cons d t')
    with Cons.prems
    have "encode_char c @ encodeURIComponent s = encode_char d @ encodeURIComponent t'"
      by (simp add: encodeURIComponent_def)
    then have "c = d" and "encodeURIComponent s = encodeURIComponent t'"
      using encode_char_prefix by blast+
    with Cons.IH Cons show ?thesis by simp
  qed
qed

lemma encode_char_no_colon: "CHR '':'' \<notin> set (encode_char c)"
proof (cases "c \<in> set uriUnreserved")
  case True
  with colon_reserved have "c \<noteq> CHR '':''" by auto
  with True show ?thesis by (simp add: encode_char_def)
next
  case False
  have "hexdigit (of_char c div 16) \<in> set ''0123456789ABCDEF''"
    by (rule hexdigit_mem [OF high_nibble])
  moreover have "hexdigit (of_char c mod 16) \<in> set ''0123456789ABCDEF''"
    by (rule hexdigit_mem) simp
  moreover have "CHR '':'' \<notin> set ''0123456789ABCDEF''" by simp
  ultimately have "hexdigit (of_char c div 16) \<noteq> CHR '':''"
    and "hexdigit (of_char c mod 16) \<noteq> CHR '':''"
    by metis+
  with False show ?thesis by (simp add: encode_char_def)
qed

lemma encodeURIComponent_no_colon: "CHR '':'' \<notin> set (encodeURIComponent s)"
  using encode_char_no_colon by (auto simp: encodeURIComponent_def)

lemma colon_split:
  assumes "x @ CHR '':'' # y = x' @ CHR '':'' # y'"
    and "CHR '':'' \<notin> set x" and "CHR '':'' \<notin> set x'"
  shows "x = x' \<and> y = y'"
proof -
  have "takeWhile (\<lambda>c. c \<noteq> CHR '':'') (x @ CHR '':'' # y) = x"
    using assms(2) by (subst takeWhile_append2) auto
  moreover have "takeWhile (\<lambda>c. c \<noteq> CHR '':'') (x' @ CHR '':'' # y') = x'"
    using assms(3) by (subst takeWhile_append2) auto
  ultimately have "x = x'" using assms(1) by simp
  with assms(1) show ?thesis by simp
qed

lemma generateKey_string_fields:
  assumes "property k ''segment'' = JStr s" and "property k ''id'' = JStr i"
  shows "generateKey E a k =
    Inr ((case partition_str a of
            None \<Rightarrow> []
          | Some p \<Rightarrow> if p \<noteq> [] then encodeURIComponent p @ '':'' else [])
        @ encodeURIComponent s @ CHR '':'' # encodeURIComponent i)"
proof -
  from assms(1) have "\<not> nullish k" by (auto simp: nullish_def)
  with assms show ?thesis
    by (simp add: generateKey_def split: option.splits)
qed

lemma generateKey_client: "generateKey E (a\<lparr>client := c\<rparr>) key = generateKey E a key"
  by (simp add: generateKey_def)

lemma generateKey_nullish: "nullish key \<Longrightarrow> generateKey E a key = Inl TypeError"
  by (simp add: generateKey_def Let_def)


text \<open>The conversion asks the engine for nothing but the printing of numbers.\<close>

lemma ToString_engine:
  "Number_toString E' = Number_toString E \<Longrightarrow> ToString E' v = ToString E v"
  "Number_toString E' = Number_toString E \<Longrightarrow> ToString_elements E' vs = ToString_elements E vs"
  by (induction E v and E vs rule: ToString_ToString_elements.induct)
    (auto split: sum.splits)

lemma generateKey_engine:
  assumes "Number_toString E' = Number_toString E"
  shows "generateKey E' a key = generateKey E a key"
proof -
  have "ToString E' (property key ''segment'') = ToString E (property key ''segment'')"
    and "ToString E' (property key ''id'') = ToString E (property key ''id'')"
    by (rule ToString_engine(1) [OF assms])+
  then show ?thesis by (simp add: generateKey_def cong: sum.case_cong)
qed



section \<open>What the operations send and return\<close>

lemma floor_thousandth: "\<lfloor>real_of_int ttl / 1000\<rfloor> = ttl div 1000"
  using floor_divide_of_int_eq [of ttl 1000, where ?'a = real] by simp

lemma get_op_not_ready: "\<not> isReady a \<Longrightarrow> get_op E a key = (Inl NotConnectedError, a)"
  by (simp add: get_op_def)

lemma set_op_not_ready: "\<not> isReady a \<Longrightarrow> set_op E a key val ttl = (Inl NotConnectedError, a)"
  by (simp add: set_op_def)

lemma drop_op_not_ready: "\<not> isReady a \<Longrightarrow> drop_op E a key = (Inl NotConnectedError, a)"
  by (simp add: drop_op_def)


lemma set_op_sends:
  "isReady a \<Longrightarrow> generateKey E a key = Inr sk \<Longrightarrow>
   JSON_stringify E
     (JObj [(''item'', val), (''stored'', JNum (Date_now E)), (''ttl'', JNum ttl)]) = Inr text \<Longrightarrow>
   calls (client (snd (set_op E a key val ttl)))
     = calls (client a) @ [SET sk text ''ex'' (max 1 (ttl div 1000))]"
  by (simp add: set_op_def client_set_def Let_def split: option.splits sum.splits)

lemma set_op_resolves:
  "isReady a \<Longrightarrow> generateKey E a key = Inr sk \<Longrightarrow>
   JSON_stringify E
     (JObj [(''item'', val), (''stored'', JNum (Date_now E)), (''ttl'', JNum ttl)]) = Inr text \<Longrightarrow>
   fault (client a) = None \<Longrightarrow>
   set_op E a key val ttl =
     (Inr (),
      a\<lparr>client := (client a)
           \<lparr>calls := calls (client a) @ [SET sk text ''ex'' (max 1 (ttl div 1000))],
            store := (store (client a))(sk \<mapsto> text)\<rparr>\<rparr>)"
  by (simp add: set_op_def client_set_def Let_def)


lemma get_op_decode:
  assumes "isReady a" and "generateKey E a key = Inr sk" and "fault (client a) = None"
  shows "fst (get_op E a key) =
    (case store (client a) sk of
       None \<Rightarrow> Inr JNull
     | Some raw \<Rightarrow>
        if raw = [] then Inr JNull
        else (case JSON_parse E raw of
                None \<Rightarrow> Inl (Error ''Bad envelope content'')
              | Some v \<Rightarrow>
                 if \<not> truthy v then Inl (Error ''Bad envelope content'')
                 else if (\<not> truthy (property v ''item'') \<and> property v ''item'' \<noteq> JNum 0)
                         \<or> \<not> truthy (property v ''stored'')
                 then Inl (Error ''Incorrect envelope structure'')
                 else Inr v))"
  using assms
  by (simp add: get_op_def client_get_def Let_def split: option.splits)

text \<open>
  A write followed by a read of the same key, the remote store answering both: the
  read decodes the text that the write serialised.
\<close>

lemma set_then_get:
  assumes "isReady a" and "generateKey E a key = Inr sk"
    and "JSON_stringify E
           (JObj [(''item'', val), (''stored'', JNum (Date_now E)), (''ttl'', JNum ttl)]) = Inr text"
    and "fault (client a) = None"
    and "text \<noteq> []" and "JSON_parse E' text = Some v"
    and "generateKey E' a key = Inr sk"
  shows "fst (get_op E' (snd (set_op E a key val ttl)) key) =
    (if \<not> truthy v then Inl (Error ''Bad envelope content'')
     else if (\<not> truthy (property v ''item'') \<and> property v ''item'' \<noteq> JNum 0)
             \<or> \<not> truthy (property v ''stored'')
     then Inl (Error ''Incorrect envelope structure'')
     else Inr v)"
proof -
  let ?a' = "a\<lparr>client := (client a)
                 \<lparr>calls := calls (client a) @ [SET sk text ''ex'' (max 1 (ttl div 1000))],
                  store := (store (client a))(sk \<mapsto> text)\<rparr>\<rparr>"
  have s: "snd (set_op E a key val ttl) = ?a'"
    by (simp add: set_op_resolves [OF assms(1-4)])
  have r: "isReady ?a'" using assms(1) by (simp add: isReady_def)
  have k: "generateKey E' ?a' key = Inr sk" using assms(7) by (simp add: generateKey_client)
  have f: "fault (client ?a') = None" using assms(4) by simp
  show ?thesis
    unfolding s using assms(5,6) by (simp add: get_op_decode [OF r k f])
qed

text \<open>
  With an engine whose parser reads back what its printer wrote, and a clock past
  the epoch, the item comes back exactly when it is truthy or the number zero.
\<close>

lemma set_then_get_roundtrip:
  assumes "isReady a" and "generateKey E a key = Inr sk"
    and "JSON_stringify E
           (JObj [(''item'', val), (''stored'', JNum (Date_now E)), (''ttl'', JNum ttl)]) = Inr text"
    and "fault (client a) = None"
    and "text \<noteq> []"
    and "JSON_parse E' text
           = Some (JObj [(''item'', val), (''stored'', JNum (Date_now E)), (''ttl'', JNum ttl)])"
    and "generateKey E' a key = Inr sk"
    and "Date_now E \<noteq> 0"
  shows "fst (get_op E' (snd (set_op E a key val ttl)) key) =
    (if truthy val \<or> val = JNum 0
     then Inr (JObj [(''item'', val), (''stored'', JNum (Date_now E)), (''ttl'', JNum ttl)])
     else Inl (Error ''Incorrect envelope structure''))"
  using assms(8) by (simp add: set_then_get [OF assms(1-7)])

text \<open>The test "can store and retrieve falsy values such as int 0".\<close>

lemma zero_item_returned:
  "fst (get_op (node 1500000000200)
          (snd (set_op (node 1500000000000) ready_adapter test_key (JNum 0) 200)) test_key)
     = Inr (JObj [(''item'', JNum 0), (''stored'', JNum 1500000000000), (''ttl'', JNum 200)])"
  by (simp add: set_then_get
      [OF ready_adapter_ready test_key_storage stringify_zero ready_adapter_fault _ parse_zero
          test_key_storage])

text \<open>
  The malformed envelopes of the test suite: a text that is not JSON, an envelope
  without \<^verbatim>\<open>stored\<close> and one without \<^verbatim>\<open>item\<close>.
\<close>

lemma malformed_envelopes_rejected:
  "fst (get_op (node 1500000000000) (holding ''test:x'' ''test'') test_key)
     = Inl (Error ''Bad envelope content'')"
  "fst (get_op (node 1500000000000) (holding ''test:x'' ''null'') test_key)
     = Inl (Error ''Bad envelope content'')"
  "fst (get_op (node 1500000000000) (holding ''test:x'' raw_no_stored) test_key)
     = Inl (Error ''Incorrect envelope structure'')"
  "fst (get_op (node 1500000000000) (holding ''test:x'' raw_no_item) test_key)
     = Inl (Error ''Incorrect envelope structure'')"
  by (simp_all add: get_op_decode [OF holding_ready holding_test_key holding_fault]
      holding_store parse_test parse_null parse_no_stored parse_no_item raws_nonempty)

section \<open>The claims\<close>




text \<open>
  \<^bold>\<open>C2\<close>, where the code departs from it. After \<^verbatim>\<open>set(k, false, 1000)\<close> and after
  \<^verbatim>\<open>set(k, '', 1000)\<close> on a ready adapter, \<^verbatim>\<open>get(k)\<close> reads the envelope back from the
  store and rejects it with "Incorrect envelope structure" instead of returning it:
  the check \<^verbatim>\<open>!envelope.item && envelope.item !== 0\<close> takes a falsy item other than
  zero for a missing one.
\<close>

theorem falsy_item_not_returned:
  "fst (get_op (node 1500000000200)
          (snd (set_op (node 1500000000000) ready_adapter test_key (JBool False) 1000)) test_key)
     = Inl (Error ''Incorrect envelope structure'')
   \<and> fst (get_op (node 1500000000200)
          (snd (set_op (node 1500000000000) ready_adapter test_key (JStr []) 1000)) test_key)
     = Inl (Error ''Incorrect envelope structure'')"
proof -
  have "fst (get_op (node 1500000000200)
          (snd (set_op (node 1500000000000) ready_adapter test_key (JBool False) 1000)) test_key)
     = Inl (Error ''Incorrect envelope structure'')"
    by (simp add: set_then_get
        [OF ready_adapter_ready test_key_storage stringify_false ready_adapter_fault _ parse_false
            test_key_storage])
  moreover have "fst (get_op (node 1500000000200)
          (snd (set_op (node 1500000000000) ready_adapter test_key (JStr []) 1000)) test_key)
     = Inl (Error ''Incorrect envelope structure'')"
    by (simp add: set_then_get
        [OF ready_adapter_ready test_key_storage stringify_empty_string ready_adapter_fault _
            parse_empty_string test_key_storage])
  ultimately show ?thesis by simp
qed

text \<open>
  \<^bold>\<open>C3\<close>, as the code has it. \<^verbatim>\<open>get\<close> has no shortcut for a missing key: with a
  \<^verbatim>\<open>null\<close> or \<^verbatim>\<open>undefined\<close> key it never resolves to \<^verbatim>\<open>null\<close>. It rejects with
  NotConnectedError when the adapter is not ready, and with the TypeError of reading
  \<^verbatim>\<open>key.segment\<close> when it is; in both cases the handle is left as it was, so no remote
  call is issued.
\<close>

theorem get_null_key:
  assumes "nullish key"
  shows "get_op E a key = (Inl (if isReady a then TypeError else NotConnectedError), a)"
  using assms by (simp add: get_op_def generateKey_nullish)

theorem get_null_key_witness:
  "nullish JNull
   \<and> get_op (node 1500000000000) ready_adapter JNull = (Inl TypeError, ready_adapter)
   \<and> get_op (node 1500000000000) lazy_adapter JNull = (Inl NotConnectedError, lazy_adapter)"
  using get_null_key [of JNull "node 1500000000000" ready_adapter]
    get_null_key [of JNull "node 1500000000000" lazy_adapter]
    ready_adapter_ready lazy_adapter_not_ready
  by (simp add: nullish_def)

theorem get_null_key_counterexample:
  "fst (get_op (node 1500000000000) ready_adapter JNull) = Inl TypeError"
  by (simp add: get_op_def isReady_def ready_adapter_def ready_client_def
      generateKey_def nullish_def)




text \<open>
  \<^bold>\<open>C5\<close>. Whenever \<^verbatim>\<open>isReady()\<close> is false, each of \<^verbatim>\<open>get\<close>, \<^verbatim>\<open>set\<close> and \<^verbatim>\<open>drop\<close>
  rejects with NotConnectedError, which is not a generic Error whatever its message,
  and leaves the adapter and its handle as they were: no remote call.
\<close>

theorem not_ready_rejects:
  assumes "\<not> isReady a"
  shows "get_op E a key = (Inl NotConnectedError, a)
       \<and> set_op E a key val ttl = (Inl NotConnectedError, a)
       \<and> drop_op E a key = (Inl NotConnectedError, a)
       \<and> NotConnectedError \<noteq> Error msg"
  using assms by (simp add: get_op_not_ready set_op_not_ready drop_op_not_ready)

theorem not_ready_rejects_witness:
  "\<not> isReady lazy_adapter
   \<and> get_op (node 1500000000000) lazy_adapter test_key = (Inl NotConnectedError, lazy_adapter)
   \<and> set_op (node 1500000000000) lazy_adapter test_key (JStr ''y'') 1
       = (Inl NotConnectedError, lazy_adapter)
   \<and> drop_op (node 1500000000000) lazy_adapter test_key = (Inl NotConnectedError, lazy_adapter)
   \<and> NotConnectedError \<noteq> Error ''Client not connected''"
  using not_ready_rejects [OF lazy_adapter_not_ready] lazy_adapter_not_ready by blast

text \<open>
  \<^bold>\<open>C6\<close>. For every positive \<^verbatim>\<open>ttl\<close> in milliseconds, \<^verbatim>\<open>set\<close> on a ready adapter, with
  a key that is present and an envelope that serialises, sends the handle one
  \<^verbatim>\<open>set\<close> command whose expiry is \<open>max 1 \<lfloor>ttl / 1000\<rfloor>\<close> seconds, which is at least 1;
  for \<^verbatim>\<open>ttl = 1\<close> it is exactly 1.
\<close>

theorem set_expiry_seconds:
  assumes "isReady a" and "generateKey E a key = Inr sk"
    and "JSON_stringify E
           (JObj [(''item'', val), (''stored'', JNum (Date_now E)), (''ttl'', JNum ttl)]) = Inr text"
    and "0 < ttl"
  shows "calls (client (snd (set_op E a key val ttl)))
           = calls (client a) @ [SET sk text ''ex'' (max 1 \<lfloor>real_of_int ttl / 1000\<rfloor>)]
       \<and> 1 \<le> max 1 \<lfloor>real_of_int ttl / 1000\<rfloor>
       \<and> (ttl = 1 \<longrightarrow> calls (client (snd (set_op E a key val ttl)))
                          = calls (client a) @ [SET sk text ''ex'' 1])"
  using set_op_sends [OF assms(1-3)] by (auto simp: floor_thousandth)

theorem set_expiry_seconds_witness:
  "isReady ready_adapter \<and> generateKey (node 1500000000000) ready_adapter test_key = Inr ''test:x'' \<and> (0::int) < 1
   \<and> calls (client (snd (set_op (node 1500000000000) ready_adapter test_key (JStr ''x'') 1)))
      = [SET ''test:x''
           (''{'' @ quoted ''item'' @ '':'' @ quoted ''x'' @ '','' @ quoted ''stored''
              @ '':1500000000000,'' @ quoted ''ttl'' @ '':1}'')
           ''ex'' 1]"
proof -
  have pos: "(0::int) < 1" by simp
  from set_expiry_seconds [OF ready_adapter_ready test_key_storage stringify_x1 pos]
  show ?thesis
    using ready_adapter_ready test_key_storage
    by (simp add: ready_adapter_calls)
qed

text \<open>
  \<^bold>\<open>C7\<close>, where the code departs from it. The first three classes of the decoding
  are as the claim has them (\<open>get_op_decode\<close>). The last is not: the stored text
  \<^verbatim>\<open>{"item":false,"stored":1}\<close> parses to an object that has both fields, \<^verbatim>\<open>item\<close>
  present and \<^verbatim>\<open>stored\<close> truthy, and \<^verbatim>\<open>get\<close> raises "Incorrect envelope structure"
  instead of returning the envelope. The check \<^verbatim>\<open>!envelope.item && envelope.item !== 0\<close>
  tests the value of the field where the claim asks for its presence.
\<close>

theorem present_falsy_item_rejected:
  "JSON_parse (node 1500000000000) raw_false_item
     = Some (JObj [(''item'', JBool False), (''stored'', JNum 1)])
   \<and> map_of [(''item'', JBool False), (''stored'', JNum 1)] ''item'' = Some (JBool False)
   \<and> truthy (property (JObj [(''item'', JBool False), (''stored'', JNum 1)]) ''stored'')
   \<and> fst (get_op (node 1500000000000) (holding ''test:x'' raw_false_item) test_key)
       = Inl (Error ''Incorrect envelope structure'')"
proof -
  have parsed: "JSON_parse (node 1500000000000) raw_false_item
     = Some (JObj [(''item'', JBool False), (''stored'', JNum 1)])"
    by (simp add: raw_false_item_def engine_eval)
  have filled: "raw_false_item \<noteq> []"
    by (simp add: raw_false_item_def)
  from get_op_decode
    [OF holding_ready [of "''test:x''" raw_false_item]
        holding_test_key [of "node 1500000000000" "''test:x''" raw_false_item]
        holding_fault [of "''test:x''" raw_false_item]]
  have "fst (get_op (node 1500000000000) (holding ''test:x'' raw_false_item) test_key)
       = Inl (Error ''Incorrect envelope structure'')"
    by (simp add: holding_store parsed filled)
  with parsed show ?thesis by simp
qed

text \<open>
  \<^bold>\<open>C8\<close>. \<^verbatim>\<open>generateKey\<close> is a function of the partition and the key alone: the state
  of the handle does not enter it. For two keys whose \<^verbatim>\<open>segment\<close> and \<^verbatim>\<open>id\<close> are
  strings, under the same partition, a difference in \<^verbatim>\<open>segment\<close> or in \<^verbatim>\<open>id\<close> gives
  different storage keys.
\<close>

theorem generateKey_collision_free:
  assumes "property k1 ''segment'' = JStr s1" and "property k1 ''id'' = JStr i1"
    and "property k2 ''segment'' = JStr s2" and "property k2 ''id'' = JStr i2"
    and "s1 \<noteq> s2 \<or> i1 \<noteq> i2"
  shows "generateKey E a k1 \<noteq> generateKey E a k2
       \<and> generateKey E (a\<lparr>client := c\<rparr>) k1 = generateKey E a k1"
proof
  show "generateKey E a k1 \<noteq> generateKey E a k2"
  proof
    assume "generateKey E a k1 = generateKey E a k2"
    then have "encodeURIComponent s1 @ CHR '':'' # encodeURIComponent i1
        = encodeURIComponent s2 @ CHR '':'' # encodeURIComponent i2"
      by (simp add: generateKey_string_fields [OF assms(1,2)]
          generateKey_string_fields [OF assms(3,4)])
    then have "encodeURIComponent s1 = encodeURIComponent s2
        \<and> encodeURIComponent i1 = encodeURIComponent i2"
      by (rule colon_split) (rule encodeURIComponent_no_colon)+
    then have "s1 = s2 \<and> i1 = i2"
      by (simp add: encodeURIComponent_inj)
    with assms(5) show False by simp
  qed
  show "generateKey E (a\<lparr>client := c\<rparr>) k1 = generateKey E a k1"
    by (rule generateKey_client)
qed

text \<open>
  Two keys that a join without encoding would both send to \<^verbatim>\<open>foo:a:b:c\<close>.
\<close>

theorem generateKey_collision_free_witness:
  "property (JObj [(''segment'', JStr ''a:b''), (''id'', JStr ''c'')]) ''segment'' = JStr ''a:b''
   \<and> property (JObj [(''segment'', JStr ''a:b''), (''id'', JStr ''c'')]) ''id'' = JStr ''c''
   \<and> property (JObj [(''segment'', JStr ''a''), (''id'', JStr ''b:c'')]) ''segment'' = JStr ''a''
   \<and> property (JObj [(''segment'', JStr ''a''), (''id'', JStr ''b:c'')]) ''id'' = JStr ''b:c''
   \<and> ''a:b'' \<noteq> ''a''
   \<and> generateKey (node 1500000000000) (partitioned ''foo'') (JObj [(''segment'', JStr ''a:b''), (''id'', JStr ''c'')])
       \<noteq> generateKey (node 1500000000000) (partitioned ''foo'') (JObj [(''segment'', JStr ''a''), (''id'', JStr ''b:c'')])
   \<and> generateKey (node 1500000000000) (partitioned ''foo'') (JObj [(''segment'', JStr ''a:b''), (''id'', JStr ''c'')])
       = Inr ''foo:a%3Ab:c''
   \<and> generateKey (node 1500000000000) (partitioned ''foo'') (JObj [(''segment'', JStr ''a''), (''id'', JStr ''b:c'')])
       = Inr ''foo:a:b%3Ac''"
proof -
  have f: "property (JObj [(''segment'', JStr ''a:b''), (''id'', JStr ''c'')]) ''segment'' = JStr ''a:b''"
    "property (JObj [(''segment'', JStr ''a:b''), (''id'', JStr ''c'')]) ''id'' = JStr ''c''"
    "property (JObj [(''segment'', JStr ''a''), (''id'', JStr ''b:c'')]) ''segment'' = JStr ''a''"
    "property (JObj [(''segment'', JStr ''a''), (''id'', JStr ''b:c'')]) ''id'' = JStr ''b:c''"
    by simp_all
  have d: "''a:b'' \<noteq> ''a'' \<or> ''c'' \<noteq> ''b:c''" by simp
  have e: "generateKey (node 1500000000000) (partitioned ''foo'') (JObj [(''segment'', JStr ''a:b''), (''id'', JStr ''c'')])
       = Inr ''foo:a%3Ab:c''"
    "generateKey (node 1500000000000) (partitioned ''foo'') (JObj [(''segment'', JStr ''a''), (''id'', JStr ''b:c'')])
       = Inr ''foo:a:b%3Ac''"
    by (simp_all add: uri_eval partitioned_def ready_adapter_def)
  from generateKey_collision_free [OF f d, of "node 1500000000000" "partitioned ''foo''"]
  have "generateKey (node 1500000000000) (partitioned ''foo'') (JObj [(''segment'', JStr ''a:b''), (''id'', JStr ''c'')])
       \<noteq> generateKey (node 1500000000000) (partitioned ''foo'') (JObj [(''segment'', JStr ''a''), (''id'', JStr ''b:c'')])"
    by blast
  with f e show ?thesis by simp
qed

text \<open>
  \<^bold>\<open>C9\<close>. \<^verbatim>\<open>start()\<close> is idempotent. When the status of the handle is not
  \<^verbatim>\<open>wait\<close>, it resolves and leaves the adapter and its handle as they were, sending
  no \<^verbatim>\<open>connect\<close>. When the status is \<^verbatim>\<open>wait\<close>, it sends exactly one \<^verbatim>\<open>connect\<close>; a
  failure of the connection is the rejection of \<^verbatim>\<open>start()\<close>, with no second attempt,
  and a success leaves the adapter ready. A second \<^verbatim>\<open>start()\<close> after a first one
  sends nothing and changes nothing.
\<close>

theorem start_idempotent:
  "(status (client a) \<noteq> ''wait'' \<longrightarrow> start a = (Inr (), a))
   \<and> (status (client a) = ''wait'' \<longrightarrow>
         calls (client (snd (start a))) = calls (client a) @ [CONNECT]
       \<and> (\<forall>e. fault (client a) = Some e \<longrightarrow> fst (start a) = Inl e)
       \<and> (fault (client a) = None \<longrightarrow> fst (start a) = Inr () \<and> isReady (snd (start a))))
   \<and> start (snd (start a)) = (Inr (), snd (start a))"
proof -
  have idle: "start b = (Inr (), b)" if "status (client b) \<noteq> ''wait''" for b
    using that by (simp add: start_def)
  have left: "status (client (snd (start a))) \<noteq> ''wait''"
    by (simp add: start_def client_connect_def Let_def split: option.splits)
  have sent: "calls (client (snd (start a))) = calls (client a) @ [CONNECT]"
    if "status (client a) = ''wait''"
    using that by (simp add: start_def client_connect_def Let_def split: option.splits)
  have refused: "fst (start a) = Inl e"
    if "status (client a) = ''wait''" and "fault (client a) = Some e" for e
    using that by (simp add: start_def client_connect_def Let_def)
  have connected: "fst (start a) = Inr () \<and> isReady (snd (start a))"
    if "status (client a) = ''wait''" and "fault (client a) = None"
    using that by (simp add: start_def client_connect_def isReady_def Let_def)
  from idle [of a] idle [OF left] sent refused connected show ?thesis
    by blast
qed

theorem start_idempotent_witness:
  "status (client ready_adapter) \<noteq> ''wait'' \<and> start ready_adapter = (Inr (), ready_adapter)
   \<and> status (client lazy_adapter) = ''wait'' \<and> fault (client lazy_adapter) = None
   \<and> fst (start lazy_adapter) = Inr () \<and> isReady (snd (start lazy_adapter))
   \<and> calls (client (snd (start lazy_adapter))) = [CONNECT]
   \<and> calls (client (snd (start (snd (start lazy_adapter))))) = [CONNECT]
   \<and> fst (start (lazy_adapter
        \<lparr>client := (client lazy_adapter)\<lparr>fault := Some (Error ''connect ECONNREFUSED'')\<rparr>\<rparr>))
       = Inl (Error ''connect ECONNREFUSED'')"
proof -
  let ?down = "lazy_adapter
    \<lparr>client := (client lazy_adapter)\<lparr>fault := Some (Error ''connect ECONNREFUSED'')\<rparr>\<rparr>"
  have r: "status (client ready_adapter) \<noteq> ''wait''"
    and w: "status (client lazy_adapter) = ''wait''" "fault (client lazy_adapter) = None"
       "calls (client lazy_adapter) = []"
    and d: "status (client ?down) = ''wait''"
       "fault (client ?down) = Some (Error ''connect ECONNREFUSED'')"
    by (simp_all add: ready_adapter_def lazy_adapter_def ready_client_def)
  from start_idempotent [of ready_adapter] r
  have 1: "start ready_adapter = (Inr (), ready_adapter)" by blast
  from start_idempotent [of lazy_adapter] w
  have 2: "fst (start lazy_adapter) = Inr () \<and> isReady (snd (start lazy_adapter))
     \<and> calls (client (snd (start lazy_adapter))) = [CONNECT]
     \<and> start (snd (start lazy_adapter)) = (Inr (), snd (start lazy_adapter))"
    by simp
  from start_idempotent [of ?down] d
  have 3: "fst (start ?down) = Inl (Error ''connect ECONNREFUSED'')" by blast
  from 1 2 3 r w show ?thesis by simp
qed

text \<open>
  \<^bold>\<open>C10\<close>. \<^verbatim>\<open>get\<close> makes no expiry check of its own. Whenever the text in the store
  decodes to a well-formed envelope (truthy, its \<^verbatim>\<open>item\<close> passing the presence check,
  its \<^verbatim>\<open>stored\<close> truthy), \<^verbatim>\<open>get\<close> returns that envelope as parsed, after one lookup,
  whatever its \<^verbatim>\<open>ttl\<close> and \<^verbatim>\<open>stored\<close> are, and whatever the clock says.
\<close>

theorem get_no_expiry_check:
  assumes "isReady a" and "generateKey E a key = Inr sk" and "fault (client a) = None"
    and "store (client a) sk = Some raw" and "raw \<noteq> []"
    and "JSON_parse E raw = Some env" and "truthy env"
    and "truthy (property env ''item'') \<or> property env ''item'' = JNum 0"
    and "truthy (property env ''stored'')"
  shows "get_op E a key
           = (Inr env, a\<lparr>client := (client a)\<lparr>calls := calls (client a) @ [GET sk]\<rparr>\<rparr>)
       \<and> get_op (E\<lparr>Date_now := t\<rparr>) a key = get_op E a key"
proof
  from assms(8) have "\<not> (\<not> truthy (property env ''item'') \<and> property env ''item'' \<noteq> JNum 0)"
    by blast
  with assms(1-7,9)
  show "get_op E a key
      = (Inr env, a\<lparr>client := (client a)\<lparr>calls := calls (client a) @ [GET sk]\<rparr>\<rparr>)"
    by (simp add: get_op_def client_get_def Let_def)
  have "generateKey (E\<lparr>Date_now := t\<rparr>) a key = generateKey E a key"
    by (rule generateKey_engine) simp
  then show "get_op (E\<lparr>Date_now := t\<rparr>) a key = get_op E a key"
    by (simp add: get_op_def Let_def
        cong: sum.case_cong prod.case_cong option.case_cong if_cong)
qed

text \<open>
  An envelope stored at millisecond 1 to live one millisecond, read in 2017.
\<close>

theorem get_no_expiry_check_witness:
  "isReady (holding ''test:x'' raw_expired)
   \<and> generateKey (node 1500000000000) (holding ''test:x'' raw_expired) test_key = Inr ''test:x''
   \<and> fault (client (holding ''test:x'' raw_expired)) = None
   \<and> store (client (holding ''test:x'' raw_expired)) ''test:x'' = Some raw_expired
   \<and> raw_expired \<noteq> []
   \<and> JSON_parse (node 1500000000000) raw_expired
       = Some (JObj [(''item'', JStr ''x''), (''stored'', JNum 1), (''ttl'', JNum 1)])
   \<and> fst (get_op (node 1500000000000) (holding ''test:x'' raw_expired) test_key)
       = Inr (JObj [(''item'', JStr ''x''), (''stored'', JNum 1), (''ttl'', JNum 1)])
   \<and> calls (client (snd (get_op (node 1500000000000) (holding ''test:x'' raw_expired) test_key)))
       = [GET ''test:x'']"
proof -
  have t: "truthy (JObj [(''item'', JStr ''x''), (''stored'', JNum 1), (''ttl'', JNum 1)])"
    and i: "truthy (property (JObj [(''item'', JStr ''x''), (''stored'', JNum 1), (''ttl'', JNum 1)]) ''item'')
      \<or> property (JObj [(''item'', JStr ''x''), (''stored'', JNum 1), (''ttl'', JNum 1)]) ''item'' = JNum 0"
    and s: "truthy (property (JObj [(''item'', JStr ''x''), (''stored'', JNum 1), (''ttl'', JNum 1)]) ''stored'')"
    by simp_all
  from get_no_expiry_check [OF holding_ready holding_test_key holding_fault holding_store
      raws_nonempty(3) parse_expired t i s]
  show ?thesis
    using holding_ready holding_test_key holding_fault holding_store raws_nonempty(3) parse_expired
    by (simp add: holding_calls)
qed

end
